theory Spec2Isabelle
  imports Complex_Main
begin

section \<open>JavaScript values and strings\<close>

text \<open>
  The request body reaches the handler as parsed JSON, so the values of its fields are
  JSON values, with \<open>JUndefined\<close> for a field that is absent. A number is kept as the
  rational value of the parsed number; only the test against zero is ever used.
  A JavaScript string is a sequence of UTF-16 code units; a \<open>string\<close> here has one
  \<open>char\<close> for each code unit, which covers the strings whose code units are below 256.
\<close>

datatype jsval =
    JUndefined
  | JNull
  | JBool bool
  | JNum rat
  | JStr string
  | JArr "jsval list"
  | JObj "(string \<times> jsval) list"

text \<open>Truthiness, as the operator \<open>!\<close> uses it.\<close>

fun truthy :: "jsval \<Rightarrow> bool" where
  "truthy JUndefined = False"
| "truthy JNull = False"
| "truthy (JBool b) = b"
| "truthy (JNum r) = (r \<noteq> 0)"
| "truthy (JStr s) = (s \<noteq> [])"
| "truthy (JArr xs) = True"
| "truthy (JObj kvs) = True"

text \<open>
  Whether converting a value to a string inside a template literal throws a TypeError.
  An object parsed from JSON throws exactly when it has an own property \<open>toString\<close>,
  which is then never callable, and the inherited \<open>valueOf\<close> returns the object itself;
  an array joins the conversions of its elements.
\<close>

fun template_throws :: "jsval \<Rightarrow> bool" where
  "template_throws (JArr xs) = list_ex template_throws xs"
| "template_throws (JObj kvs) = (''toString'' \<in> fst ` set kvs)"
| "template_throws v = False"

text \<open>
  The white space that \<open>String.prototype.trim\<close> removes and that \<open>\s\<close> matches:
  TAB, LF, VT, FF, CR, SPACE and NBSP are those with a code unit below 256.
\<close>

definition is_space :: "char \<Rightarrow> bool" where
  "is_space c = (c \<in> set [CHR 0x09, CHR 0x0A, CHR 0x0B, CHR 0x0C, CHR 0x0D, CHR '' '', CHR 0xA0])"

definition is_digit :: "char \<Rightarrow> bool" where
  "is_digit c = (c \<in> set ''0123456789'')"

text \<open>\<open>s.trim()\<close>\<close>

definition trim :: "string \<Rightarrow> string" where
  "trim s = rev (dropWhile is_space (rev (dropWhile is_space s)))"

text \<open>\<open>s.startsWith(p)\<close>\<close>

fun startsWith :: "string \<Rightarrow> string \<Rightarrow> bool" where
  "startsWith s [] = True"
| "startsWith [] (p # ps) = False"
| "startsWith (c # cs) (p # ps) = (c = p \<and> startsWith cs ps)"

text \<open>\<open>s.includes(p)\<close>: \<open>p\<close> occurs in \<open>s\<close> at some position.\<close>

fun str_includes :: "string \<Rightarrow> string \<Rightarrow> bool" where
  "str_includes [] p = startsWith [] p"
| "str_includes (c # cs) p = (startsWith (c # cs) p \<or> str_includes cs p)"

text \<open>
  \<open>s.split('\n')\<close>: one more piece than there are newline characters; the empty string
  gives the single piece \<open>''''\<close>.
\<close>

fun split_from :: "string \<Rightarrow> string \<Rightarrow> string list" where
  "split_from piece [] = [piece]"
| "split_from piece (c # cs) =
     (if c = CHR 0x0A then piece # split_from [] cs else split_from (piece @ [c]) cs)"

definition split_newline :: "string \<Rightarrow> string list" where
  "split_newline s = split_from [] s"

text \<open>\<open>xs.join('\n')\<close>\<close>

fun join_newline :: "string list \<Rightarrow> string" where
  "join_newline [] = []"
| "join_newline [x] = x"
| "join_newline (x # y # ys) = x @ CHR 0x0A # join_newline (y # ys)"

text \<open>
  The decimal digits of a non-negative integer, as a template literal prints a line
  number (an array index plus one, so far below the size where JavaScript switches to
  the exponent notation).
\<close>

definition digit_char :: "nat \<Rightarrow> char" where
  "digit_char d = ''0123456789'' ! d"

fun show_nat :: "nat \<Rightarrow> string" where
  "show_nat n =
     (if n < 10 then [digit_char n] else show_nat (n div 10) @ [digit_char (n mod 10)])"

declare show_nat.simps [simp del]

section \<open>Static analysis: \<open>analyzeCode\<close> (backend/server.js)\<close>

text \<open>
  The file holds two copies of the server; \<open>analyzeCode\<close>, \<open>generateAIFixedCode\<close>
  and the handler of \<open>POST /analyze\<close> are the same in both.
\<close>

record issue =
  type :: string
  title :: string
  message :: string

record report =
  warnings :: nat
  suggestions :: nat
  total :: nat
  issues :: "issue list"

text \<open>The three variables that the loop over the lines updates.\<close>

record analysis_state =
  st_issues :: "issue list"
  st_warnings :: nat
  st_suggestions :: nat

definition initial_state :: analysis_state where
  "initial_state = \<lparr>st_issues = [], st_warnings = 0, st_suggestions = 0\<rparr>"

definition push_warning :: "issue \<Rightarrow> analysis_state \<Rightarrow> analysis_state" where
  "push_warning i st = st\<lparr>st_issues := st_issues st @ [i], st_warnings := st_warnings st + 1\<rparr>"

definition push_suggestion :: "issue \<Rightarrow> analysis_state \<Rightarrow> analysis_state" where
  "push_suggestion i st =
     st\<lparr>st_issues := st_issues st @ [i], st_suggestions := st_suggestions st + 1\<rparr>"

text \<open>The four issues, with the line number printed into the message.\<close>

definition todo_issue :: "nat \<Rightarrow> issue" where
  "todo_issue lineNumber =
     \<lparr>type = ''warning'', title = ''TODO comment found'',
      message = ''Line '' @ show_nat lineNumber
        @ '': Consider resolving or removing TODOs before release.''\<rparr>"

definition long_line_issue :: "nat \<Rightarrow> issue" where
  "long_line_issue lineNumber =
     \<lparr>type = ''suggestion'', title = ''Line too long'',
      message = ''Line '' @ show_nat lineNumber
        @ '': Break this line into smaller parts for readability.''\<rparr>"

definition loose_equality_issue :: "nat \<Rightarrow> issue" where
  "loose_equality_issue lineNumber =
     \<lparr>type = ''warning'', title = ''Loose equality operator'',
      message = ''Line '' @ show_nat lineNumber
        @ '': Use '===' instead of '==' to avoid unexpected type coercion.''\<rparr>"

definition debug_issue :: "nat \<Rightarrow> issue" where
  "debug_issue lineNumber =
     \<lparr>type = ''suggestion'', title = ''Debug statement'',
      message = ''Line '' @ show_nat lineNumber
        @ '': Remove debug prints/logs in production code.''\<rparr>"

text \<open>
  The body of the callback of \<open>lines.forEach\<close>: the four checks in their order, each
  pushing its issue and incrementing its counter. The language is compared with
  \<open>===\<close>, so a language that is not a string never equals \<open>"javascript"\<close>.
\<close>

definition analyzeLine :: "jsval \<Rightarrow> string \<Rightarrow> nat \<Rightarrow> analysis_state \<Rightarrow> analysis_state" where
  "analyzeLine language line index st =
     (let lineNumber = index + 1;
          trimmed = trim line;
          st1 = (if str_includes trimmed ''TODO''
                 then push_warning (todo_issue lineNumber) st else st);
          st2 = (if length line > 100
                 then push_suggestion (long_line_issue lineNumber) st1 else st1);
          st3 = (if language = JStr ''javascript'' \<and> str_includes trimmed ''==''
                    \<and> \<not> str_includes trimmed ''===''
                 then push_warning (loose_equality_issue lineNumber) st2 else st2);
          st4 = (if startsWith trimmed ''print('' \<or> str_includes trimmed ''console.log''
                 then push_suggestion (debug_issue lineNumber) st3 else st3)
      in st4)"

text \<open>\<open>xs.forEach((x, index) => ...)\<close>, from the index \<open>i\<close> on.\<close>

fun forEach :: "('a \<Rightarrow> nat \<Rightarrow> 's \<Rightarrow> 's) \<Rightarrow> 'a list \<Rightarrow> nat \<Rightarrow> 's \<Rightarrow> 's" where
  "forEach f [] i st = st"
| "forEach f (x # xs) i st = forEach f xs (i + 1) (f x i st)"

definition analyzeCode :: "string \<Rightarrow> jsval \<Rightarrow> report" where
  "analyzeCode code language =
     (let lines = split_newline code;
          st = forEach (analyzeLine language) lines 0 initial_state
      in \<lparr>warnings = st_warnings st, suggestions = st_suggestions st,
          total = length (st_issues st), issues = st_issues st\<rparr>)"

text \<open>The issues that the callback pushes for one line.\<close>

definition line_issues :: "jsval \<Rightarrow> string \<Rightarrow> nat \<Rightarrow> issue list" where
  "line_issues language line index = st_issues (analyzeLine language line index initial_state)"

text \<open>
  The issues of a list of lines whose first line has the index \<open>i\<close>: those of each
  line, line after line.
\<close>

definition numbered_issues :: "jsval \<Rightarrow> string list \<Rightarrow> nat \<Rightarrow> issue list" where
  "numbered_issues language lines i =
     concat (map (\<lambda>(line, index). line_issues language line index)
       (zip lines [i..<i + length lines]))"

section \<open>The route \<open>POST /analyze\<close>\<close>

datatype failure =
    HttpError nat string
  | TypeError string

text \<open>
  \<open>analyzeCode\<close> as the handler calls it, on whatever value the field holds:
  \<open>code.split\<close> is a function only when \<open>code\<close> is a string, and the first
  statement throws a TypeError otherwise (the messages are those of V8).
\<close>

fun analyzeCode_call :: "jsval \<Rightarrow> jsval \<Rightarrow> failure + report" where
  "analyzeCode_call (JStr code) language = Inr (analyzeCode code language)"
| "analyzeCode_call JUndefined language =
     Inl (TypeError ''Cannot read properties of undefined (reading 'split')'')"
| "analyzeCode_call JNull language =
     Inl (TypeError ''Cannot read properties of null (reading 'split')'')"
| "analyzeCode_call v language = Inl (TypeError ''code.split is not a function'')"

text \<open>
  The loop of \<open>extractCodeBlock\<close>: the lines between the first line that starts with
  three backticks and the next such line.
\<close>

fun extract_lines :: "string list \<Rightarrow> bool \<Rightarrow> string list \<Rightarrow> string list" where
  "extract_lines [] inCodeBlock codeLines = codeLines"
| "extract_lines (line # rest) inCodeBlock codeLines =
     (if startsWith (trim line) ''```''
      then (if inCodeBlock then codeLines else extract_lines rest True codeLines)
      else if inCodeBlock then extract_lines rest inCodeBlock (codeLines @ [line])
      else extract_lines rest inCodeBlock codeLines)"

definition extractCodeBlock :: "string \<Rightarrow> string" where
  "extractCodeBlock text = trim (join_newline (extract_lines (split_newline text) False []))"

text \<open>
  The external model: one call either throws or answers, and \<open>response.text\<close> is a
  string or undefined. The prompt is built from the code and the language, so the
  client is a function of these two.
\<close>

datatype ai_reply = Throws | Text "string option"

type_synonym ai_client = "jsval \<Rightarrow> jsval \<Rightarrow> ai_reply"


text \<open>
  \<open>generateAIFixedCode\<close>: null without a client; the prompt is built before the
  \<open>try\<close>, so a conversion that throws there escapes; everything thrown inside the
  \<open>try\<close>, by the call or by \<open>text.split\<close> on undefined, is caught and gives null.
\<close>

definition generateAIFixedCode ::
  "ai_client option \<Rightarrow> jsval \<Rightarrow> jsval \<Rightarrow> failure + string option" where
  "generateAIFixedCode ai code language =
     (case ai of
        None \<Rightarrow> Inr None
      | Some client \<Rightarrow>
          if template_throws language \<or> template_throws code
          then Inl (TypeError ''Cannot convert object to primitive value'')
          else (case client code language of
                  Throws \<Rightarrow> Inr None
                | Text None \<Rightarrow> Inr None
                | Text (Some aiResponseText) \<Rightarrow> Inr (Some (extractCodeBlock aiResponseText))))"

text \<open>The response: the fields of the report, spread, and \<open>suggested_code\<close>.\<close>

record final_response = report +
  suggested_code :: "string option"

text \<open>
  The parsed body is an object: its properties, each name once. A property that is
  absent reads as undefined.
\<close>

type_synonym json_object = "(string \<times> jsval) list"

definition get_prop :: "json_object \<Rightarrow> string \<Rightarrow> jsval" where
  "get_prop body k = (case map_of body k of None \<Rightarrow> JUndefined | Some v \<Rightarrow> v)"

definition missing_message :: string where
  "missing_message = ''Missing 'code' or 'language' in request body.''"

text \<open>
  The handler. \<open>Inl (HttpError 400 m)\<close> is the response with status 400 and the
  body \<open>{error: m}\<close>; \<open>Inl (TypeError m)\<close> is an exception that leaves the handler, so
  that no response is sent; \<open>Inr r\<close> is the response \<open>res.json(r)\<close>.
\<close>

definition post_analyze :: "ai_client option \<Rightarrow> json_object \<Rightarrow> failure + final_response" where
  "post_analyze ai body =
     (let code = get_prop body ''code''; language = get_prop body ''language''
      in if \<not> truthy code \<or> \<not> truthy language
         then Inl (HttpError 400 missing_message)
         else (case analyzeCode_call code language of
                 Inl e \<Rightarrow> Inl e
               | Inr analysisResponse \<Rightarrow>
                   (case generateAIFixedCode ai code language of
                      Inl e \<Rightarrow> Inl e
                    | Inr suggestedCode \<Rightarrow>
                        Inr (report.extend analysisResponse
                               (final_response.fields suggestedCode)))))"

section \<open>The frontend (frontend/script.js)\<close>

text \<open>
  The regular expression \<open>/Line\s+(\d+)\s*:/i\<close> tried at the start of a string; the
  result is the first group. White space, digits and the colon are pairwise
  disjoint, so the longest run of each is the only choice that can succeed and the
  greedy quantifiers never backtrack. With the flag \<open>i\<close> each letter of \<open>Line\<close>
  matches in either case.
\<close>

definition match_here :: "string \<Rightarrow> string option" where
  "match_here s =
     (case s of
        c1 # c2 # c3 # c4 # r1 \<Rightarrow>
          if c1 \<in> set ''Ll'' \<and> c2 \<in> set ''Ii'' \<and> c3 \<in> set ''Nn'' \<and> c4 \<in> set ''Ee''
          then (let r2 = dropWhile is_space r1;
                    digits = takeWhile is_digit r2;
                    r3 = dropWhile is_space (dropWhile is_digit r2)
                in if takeWhile is_space r1 \<noteq> [] \<and> digits \<noteq> [] \<and> startsWith r3 '':''
                   then Some digits else None)
          else None
      | _ \<Rightarrow> None)"

text \<open>\<open>message.match(re)\<close> without the flag \<open>g\<close>: the leftmost match.\<close>

fun regex_match :: "string \<Rightarrow> string option" where
  "regex_match [] = match_here []"
| "regex_match (c # cs) =
     (case match_here (c # cs) of Some d \<Rightarrow> Some d | None \<Rightarrow> regex_match cs)"

text \<open>
  \<open>parseInt(d, 10)\<close> on a run of decimal digits, which is what the first group of
  the regular expression holds.
\<close>

definition digit_value :: "char \<Rightarrow> nat" where
  "digit_value c = (of_char c - 48)"

definition parseInt :: "string \<Rightarrow> nat" where
  "parseInt d = foldl (\<lambda>a c. 10 * a + digit_value c) 0 d"

text \<open>\<open>lines.add(n)\<close> on a Set, kept in insertion order as \<open>Array.from\<close> lists it.\<close>

definition set_add :: "nat list \<Rightarrow> nat \<Rightarrow> nat list" where
  "set_add xs n = (if n \<in> set xs then xs else xs @ [n])"

definition getErroredLineNumbers :: "issue list \<Rightarrow> nat list" where
  "getErroredLineNumbers is =
     foldl (\<lambda>lines i. case regex_match (message i) of
                         Some d \<Rightarrow> set_add lines (parseInt d)
                       | None \<Rightarrow> lines) [] is"

text \<open>
  The parsed response as \<open>addReport\<close> reads it: a count that is null or undefined is
  \<open>None\<close>, and \<open>??\<close> replaces it by 0.
\<close>

record result =
  res_total :: "nat option"
  res_warnings :: "nat option"
  res_suggestions :: "nat option"

definition nullish :: "nat option \<Rightarrow> nat \<Rightarrow> nat" where
  "nullish v d = (case v of None \<Rightarrow> d | Some x \<Rightarrow> x)"

text \<open>What the frontend parses from the response of a successful analysis.\<close>

definition result_of :: "final_response \<Rightarrow> result" where
  "result_of r =
     \<lparr>res_total = Some (total r), res_warnings = Some (warnings r),
      res_suggestions = Some (suggestions r)\<rparr>"

record session_record =
  rec_timestamp :: string
  rec_language :: string
  rec_total :: nat
  rec_warnings :: nat
  rec_suggestions :: nat

text \<open>
  \<open>addReport\<close> on the global list \<open>reports\<close>; the time stamp comes from the clock and
  is a parameter. \<open>unshift\<close> puts the new record in front.
\<close>

definition addReport :: "string \<Rightarrow> string \<Rightarrow> result \<Rightarrow> session_record list \<Rightarrow> session_record list" where
  "addReport timestamp language result reports =
     \<lparr>rec_timestamp = timestamp, rec_language = language,
      rec_total = nullish (res_total result) 0,
      rec_warnings = nullish (res_warnings result) 0,
      rec_suggestions = nullish (res_suggestions result) 0\<rparr> # reports"

text \<open>The list at page load, and a run of successful analyses, oldest first.\<close>

definition reports_initial :: "session_record list" where
  "reports_initial = []"

fun record_all :: "(string \<times> string \<times> final_response) list \<Rightarrow> session_record list \<Rightarrow> session_record list" where
  "record_all [] reports = reports"
| "record_all ((timestamp, language, r) # rest) reports =
     record_all rest (addReport timestamp language (result_of r) reports)"

section \<open>The loop of \<open>analyzeCode\<close>\<close>

lemma line_issues_eq:
  "line_issues language line index =
     (if str_includes (trim line) ''TODO'' then [todo_issue (index + 1)] else [])
     @ (if length line > 100 then [long_line_issue (index + 1)] else [])
     @ (if language = JStr ''javascript'' \<and> str_includes (trim line) ''==''
           \<and> \<not> str_includes (trim line) ''==='' then [loose_equality_issue (index + 1)] else [])
     @ (if startsWith (trim line) ''print('' \<or> str_includes (trim line) ''console.log''
        then [debug_issue (index + 1)] else [])"
  by (simp add: line_issues_def analyzeLine_def Let_def push_warning_def push_suggestion_def
      initial_state_def)

lemma analyzeLine_issues:
  "st_issues (analyzeLine language line index st) = st_issues st @ line_issues language line index"
  by (simp add: line_issues_def analyzeLine_def Let_def push_warning_def push_suggestion_def
      initial_state_def)

lemma issue_types:
  "type (todo_issue n) = ''warning''" "type (long_line_issue n) = ''suggestion''"
  "type (loose_equality_issue n) = ''warning''" "type (debug_issue n) = ''suggestion''"
  by (simp_all add: todo_issue_def long_line_issue_def loose_equality_issue_def debug_issue_def)

lemma issue_titles:
  "title (todo_issue n) = ''TODO comment found''" "title (long_line_issue n) = ''Line too long''"
  "title (loose_equality_issue n) = ''Loose equality operator''"
  "title (debug_issue n) = ''Debug statement''"
  by (simp_all add: todo_issue_def long_line_issue_def loose_equality_issue_def debug_issue_def)

lemma analyzeLine_warnings:
  "st_warnings (analyzeLine language line index st) =
     st_warnings st + length (filter (\<lambda>x. type x = ''warning'') (line_issues language line index))"
  by (simp add: line_issues_eq issue_types)
     (simp add: analyzeLine_def Let_def push_warning_def push_suggestion_def)

lemma analyzeLine_suggestions:
  "st_suggestions (analyzeLine language line index st) =
     st_suggestions st
       + length (filter (\<lambda>x. type x = ''suggestion'') (line_issues language line index))"
  by (simp add: line_issues_eq issue_types)
     (simp add: analyzeLine_def Let_def push_warning_def push_suggestion_def)

lemma line_issues_types:
  "x \<in> set (line_issues language line index) \<Longrightarrow> type x = ''warning'' \<or> type x = ''suggestion''"
  by (auto simp add: line_issues_eq issue_types split: if_splits)

lemma numbered_issues_Nil: "numbered_issues language [] i = []"
  by (simp add: numbered_issues_def)

lemma numbered_issues_Cons:
  "numbered_issues language (l # ls) i =
     line_issues language l i @ numbered_issues language ls (i + 1)"
proof -
  have "[i..<i + length (l # ls)] = i # [i + 1..<i + 1 + length ls]"
    by (simp add: upt_conv_Cons del: upt_Suc)
  then show ?thesis
    by (simp add: numbered_issues_def)
qed

lemma forEach_issues:
  "st_issues (forEach (analyzeLine language) lines i st) =
     st_issues st @ numbered_issues language lines i"
  by (induction lines arbitrary: i st)
     (simp_all add: numbered_issues_Nil numbered_issues_Cons analyzeLine_issues)

lemma forEach_warnings:
  "st_warnings (forEach (analyzeLine language) lines i st) =
     st_warnings st
       + length (filter (\<lambda>x. type x = ''warning'') (numbered_issues language lines i))"
  by (induction lines arbitrary: i st)
     (simp_all add: numbered_issues_Nil numbered_issues_Cons analyzeLine_warnings)

lemma forEach_suggestions:
  "st_suggestions (forEach (analyzeLine language) lines i st) =
     st_suggestions st
       + length (filter (\<lambda>x. type x = ''suggestion'') (numbered_issues language lines i))"
  by (induction lines arbitrary: i st)
     (simp_all add: numbered_issues_Nil numbered_issues_Cons analyzeLine_suggestions)

lemma numbered_issues_types:
  "x \<in> set (numbered_issues language lines i) \<Longrightarrow> type x = ''warning'' \<or> type x = ''suggestion''"
  by (auto simp add: numbered_issues_def dest: line_issues_types)

lemma two_kinds_length:
  "(\<And>x. x \<in> set xs \<Longrightarrow> type x = ''warning'' \<or> type x = ''suggestion'') \<Longrightarrow>
   length (filter (\<lambda>x. type x = ''warning'') xs)
     + length (filter (\<lambda>x. type x = ''suggestion'') xs) = length xs"
  by (induction xs) auto

lemma analyzeCode_issues:
  "issues (analyzeCode code language) = numbered_issues language (split_newline code) 0"
  by (simp add: analyzeCode_def Let_def forEach_issues initial_state_def)

lemma analyzeCode_total:
  "total (analyzeCode code language) = length (issues (analyzeCode code language))"
  by (simp add: analyzeCode_def Let_def)

lemma analyzeCode_warnings:
  "warnings (analyzeCode code language) =
     length (filter (\<lambda>x. type x = ''warning'') (issues (analyzeCode code language)))"
  by (simp add: analyzeCode_def Let_def forEach_warnings forEach_issues initial_state_def)

lemma analyzeCode_suggestions:
  "suggestions (analyzeCode code language) =
     length (filter (\<lambda>x. type x = ''suggestion'') (issues (analyzeCode code language)))"
  by (simp add: analyzeCode_def Let_def forEach_suggestions forEach_issues initial_state_def)

lemma analyzeCode_empty:
  "analyzeCode [] language = \<lparr>warnings = 0, suggestions = 0, total = 0, issues = []\<rparr>"
  by (simp add: analyzeCode_def split_newline_def Let_def analyzeLine_def initial_state_def
      trim_def)

lemma filter_numbered_issues:
  "filter P (numbered_issues language lines i) =
     concat (map (\<lambda>(line, index). filter P (line_issues language line index))
       (zip lines [i..<i + length lines]))"
  by (simp add: numbered_issues_def filter_concat comp_def case_prod_unfold)

lemma in_numbered_issues:
  "x \<in> set (numbered_issues language lines 0) \<longleftrightarrow>
     (\<exists>index < length lines. x \<in> set (line_issues language (lines ! index) index))"
proof
  assume "x \<in> set (numbered_issues language lines 0)"
  then show "\<exists>index < length lines. x \<in> set (line_issues language (lines ! index) index)"
    by (auto simp add: numbered_issues_def set_zip)
next
  assume "\<exists>index < length lines. x \<in> set (line_issues language (lines ! index) index)"
  then obtain index where i: "index < length lines"
    and x: "x \<in> set (line_issues language (lines ! index) index)"
    by blast
  from i have "(lines ! index, index) \<in> set (zip lines [0..<length lines])"
    by (simp add: set_zip) (rule exI [of _ index], simp)
  with x show "x \<in> set (numbered_issues language lines 0)"
    by (force simp add: numbered_issues_def)
qed

subsection \<open>The three rules on one line\<close>

lemma long_line_filter:
  "filter (\<lambda>x. title x = ''Line too long'') (line_issues language line index) =
     (if length line > 100 then [long_line_issue (index + 1)] else [])"
  by (simp add: line_issues_eq issue_titles)

lemma loose_equality_filter:
  "filter (\<lambda>x. title x = ''Loose equality operator'') (line_issues language line index) =
     (if language = JStr ''javascript'' \<and> str_includes (trim line) ''==''
           \<and> \<not> str_includes (trim line) ''==='' then [loose_equality_issue (index + 1)] else [])"
  by (simp add: line_issues_eq issue_titles)

lemma debug_filter:
  "filter (\<lambda>x. title x = ''Debug statement'') (line_issues language line index) =
     (if startsWith (trim line) ''print('' \<or> str_includes (trim line) ''console.log''
        then [debug_issue (index + 1)] else [])"
  by (simp add: line_issues_eq issue_titles)

section \<open>Printing and reading a line number\<close>

lemma below_ten: "n < 10 \<Longrightarrow> n \<in> {0, 1, 2, 3, 4, 5, 6, 7, 8, 9::nat}"
  by auto

lemma digit_char_is_digit: "n < 10 \<Longrightarrow> is_digit (digit_char n)"
  by (drule below_ten) (auto simp add: is_digit_def digit_char_def)

lemma digit_value_digit_char: "n < 10 \<Longrightarrow> digit_value (digit_char n) = n"
  by (drule below_ten) (auto simp add: digit_value_def digit_char_def)

lemma digit_not_space: "is_digit c \<Longrightarrow> \<not> is_space c"
  by (auto simp add: is_digit_def is_space_def)

lemma show_nat_digits: "c \<in> set (show_nat n) \<Longrightarrow> is_digit c"
proof (induction n arbitrary: c rule: show_nat.induct)
  case (1 n)
  show ?case
  proof (cases "n < 10")
    case True
    with "1.prems" show ?thesis
      by (simp add: show_nat.simps [of n] digit_char_is_digit)
  next
    case False
    with "1.prems" "1.IH" show ?thesis
      by (auto simp add: show_nat.simps [of n] digit_char_is_digit)
  qed
qed

lemma show_nat_not_Nil: "show_nat n \<noteq> []"
  by (simp add: show_nat.simps [of n])

lemma parseInt_snoc: "parseInt (d @ [c]) = 10 * parseInt d + digit_value c"
  by (simp add: parseInt_def)

lemma parseInt_show_nat: "parseInt (show_nat n) = n"
proof (induction n rule: show_nat.induct)
  case (1 n)
  show ?case
  proof (cases "n < 10")
    case True
    then show ?thesis
      by (simp add: show_nat.simps [of n] parseInt_def digit_value_digit_char)
  next
    case False
    with "1.IH" show ?thesis
      by (simp add: show_nat.simps [of n] parseInt_snoc digit_value_digit_char)
  qed
qed

lemma match_here_Line:
  "match_here (''Line '' @ show_nat n @ '':'' @ rest) = Some (show_nat n)"
proof -
  have digits: "\<forall>c \<in> set (show_nat n). is_digit c"
    by (simp add: show_nat_digits)
  obtain d ds where d: "show_nat n = d # ds"
    using show_nat_not_Nil [of n] by (cases "show_nat n") auto
  then have "is_digit d"
    using digits by simp
  then have nsp: "\<not> is_space d"
    by (rule digit_not_space)
  have sp: "is_space CHR '' ''" and col: "\<not> is_digit CHR '':''" "\<not> is_space CHR '':''"
    by (simp_all add: is_space_def is_digit_def)
  have tw: "takeWhile is_digit (show_nat n @ CHR '':'' # rest) = show_nat n"
    using digits col by simp
  have dw: "dropWhile is_digit (show_nat n @ CHR '':'' # rest) = CHR '':'' # rest"
    using digits col by simp
  define r where "r = CHR '' '' # show_nat n @ '':'' @ rest"
  have r1: "takeWhile is_space r = '' ''"
    using sp nsp by (simp add: r_def d)
  have r2: "dropWhile is_space r = show_nat n @ '':'' @ rest"
    using sp nsp by (simp add: r_def d)
  have "match_here (CHR ''L'' # CHR ''i'' # CHR ''n'' # CHR ''e'' # r) = Some (show_nat n)"
    using col(2) show_nat_not_Nil [of n]
    by (simp add: match_here_def r1 r2 tw dw Let_def)
  then show ?thesis by (simp add: r_def)
qed

lemma regex_match_Line:
  "regex_match (''Line '' @ show_nat n @ '':'' @ rest) = Some (show_nat n)"
proof -
  have "regex_match (c # cs) = Some d" if "match_here (c # cs) = Some d" for c cs d
    using that by simp
  from this [of "CHR ''L''" "''ine '' @ show_nat n @ '':'' @ rest" "show_nat n"]
  show ?thesis
    using match_here_Line [of n rest] by simp
qed

lemma regex_match_messages:
  "regex_match (message (todo_issue n)) = Some (show_nat n)"
  "regex_match (message (long_line_issue n)) = Some (show_nat n)"
  "regex_match (message (loose_equality_issue n)) = Some (show_nat n)"
  "regex_match (message (debug_issue n)) = Some (show_nat n)"
  using regex_match_Line [of n "'' Consider resolving or removing TODOs before release.''"]
    regex_match_Line [of n "'' Break this line into smaller parts for readability.''"]
    regex_match_Line [of n "'' Use '===' instead of '==' to avoid unexpected type coercion.''"]
    regex_match_Line [of n "'' Remove debug prints/logs in production code.''"]
  by (simp_all add: todo_issue_def long_line_issue_def loose_equality_issue_def debug_issue_def)

lemma line_issues_regex:
  "x \<in> set (line_issues language line index) \<Longrightarrow>
     regex_match (message x) = Some (show_nat (index + 1))"
  by (auto simp add: line_issues_eq regex_match_messages split: if_splits)

lemma startsWith_append: "startsWith (p @ s) p"
  by (induction p) auto

lemma startsWith_includes: "startsWith s p \<Longrightarrow> str_includes s p"
  by (cases s) auto

lemma line_issues_message:
  "x \<in> set (line_issues language line index) \<Longrightarrow>
     str_includes (message x) (''Line '' @ show_nat (index + 1) @ '':'')"
proof -
  assume "x \<in> set (line_issues language line index)"
  then have "\<exists>rest. message x = (''Line '' @ show_nat (index + 1) @ '':'') @ rest"
    by (auto simp add: line_issues_eq todo_issue_def long_line_issue_def
        loose_equality_issue_def debug_issue_def split: if_splits)
  then show ?thesis
    using startsWith_append startsWith_includes by metis
qed

lemma set_set_add: "set (set_add xs n) = insert n (set xs)"
  by (auto simp add: set_add_def)

lemma set_foldl_lines:
  "set (foldl (\<lambda>lines i. case regex_match (message i) of
                         Some d \<Rightarrow> set_add lines (parseInt d)
                       | None \<Rightarrow> lines) acc is) =
     set acc \<union> {parseInt d |d i. i \<in> set is \<and> regex_match (message i) = Some d}"
  by (induction "is" arbitrary: acc) (auto simp add: set_set_add split: option.splits)

lemma set_getErroredLineNumbers:
  "set (getErroredLineNumbers is) =
     {parseInt d |d i. i \<in> set is \<and> regex_match (message i) = Some d}"
  by (simp add: getErroredLineNumbers_def set_foldl_lines)

section \<open>The handler and the session log\<close>

lemma post_analyze_rejects:
  "\<not> truthy (get_prop body ''code'') \<or> \<not> truthy (get_prop body ''language'') \<Longrightarrow>
     post_analyze ai body = Inl (HttpError 400 missing_message)"
  by (simp add: post_analyze_def Let_def)

lemma record_all_append:
  "record_all analyses reports =
     rev (map (\<lambda>(timestamp, language, r).
            \<lparr>rec_timestamp = timestamp, rec_language = language, rec_total = total r,
             rec_warnings = warnings r, rec_suggestions = suggestions r\<rparr>) analyses) @ reports"
  by (induction analyses reports rule: record_all.induct)
     (simp_all add: addReport_def result_of_def nullish_def)

section \<open>The claims\<close>

text \<open>
  Claim C1. For every string \<open>code\<close> and every string \<open>language\<close>, the report of
  \<open>analyzeCode\<close> has \<open>total\<close> equal to the number of its issues and to
  \<open>warnings + suggestions\<close>, where \<open>warnings\<close> is the number of issues of type
  \<open>"warning"\<close> and \<open>suggestions\<close> the number of issues of type \<open>"suggestion"\<close>.
\<close>

theorem report_counts:
  "total (analyzeCode code (JStr language)) = length (issues (analyzeCode code (JStr language)))
   \<and> total (analyzeCode code (JStr language))
       = warnings (analyzeCode code (JStr language)) + suggestions (analyzeCode code (JStr language))
   \<and> warnings (analyzeCode code (JStr language))
       = length (filter (\<lambda>x. type x = ''warning'') (issues (analyzeCode code (JStr language))))
   \<and> suggestions (analyzeCode code (JStr language))
       = length (filter (\<lambda>x. type x = ''suggestion'') (issues (analyzeCode code (JStr language))))"
proof -
  let ?r = "analyzeCode code (JStr language)"
  have kinds: "\<And>x. x \<in> set (issues ?r) \<Longrightarrow> type x = ''warning'' \<or> type x = ''suggestion''"
    by (simp add: analyzeCode_issues numbered_issues_types)
  have "warnings ?r + suggestions ?r = length (issues ?r)"
    unfolding analyzeCode_warnings analyzeCode_suggestions using kinds by (rule two_kinds_length)
  then show ?thesis
    using analyzeCode_total analyzeCode_warnings analyzeCode_suggestions by simp
qed

theorem report_counts_witness:
  "total (analyzeCode ''a == b // TODO'' (JStr ''javascript'')) = 2
   \<and> length (issues (analyzeCode ''a == b // TODO'' (JStr ''javascript''))) = 2
   \<and> warnings (analyzeCode ''a == b // TODO'' (JStr ''javascript''))
       + suggestions (analyzeCode ''a == b // TODO'' (JStr ''javascript'')) = 2"
proof -
  have "total (analyzeCode ''a == b // TODO'' (JStr ''javascript'')) = 2"
    by code_simp
  then show ?thesis
    using report_counts [of "''a == b // TODO''" "''javascript''"] by simp
qed

text \<open>
  Claim C2, as amended. The empty string is valid input to \<open>analyzeCode\<close> itself,
  whose report for it has \<open>total = 0\<close> and no issues; a request whose \<open>code\<close> is the
  empty string is rejected by the handler with the status 400, since the empty string
  is falsy, and yields no report.
\<close>

theorem empty_code:
  "total (analyzeCode '''' language) = 0 \<and> issues (analyzeCode '''' language) = []
   \<and> (get_prop body ''code'' = JStr '''' \<longrightarrow>
        post_analyze ai body = Inl (HttpError 400 missing_message))"
  by (simp add: analyzeCode_empty post_analyze_rejects)

theorem empty_code_witness:
  "get_prop [(''language'', JStr ''python''), (''code'', JStr '''')] ''code'' = JStr ''''
   \<and> total (analyzeCode '''' (JStr ''python'')) = 0
   \<and> issues (analyzeCode '''' (JStr ''python'')) = []
   \<and> post_analyze None [(''language'', JStr ''python''), (''code'', JStr '''')]
       = Inl (HttpError 400 missing_message)"
proof -
  have g: "get_prop [(''language'', JStr ''python''), (''code'', JStr '''')] ''code'' = JStr ''''"
    by (simp add: get_prop_def)
  with empty_code [of "JStr ''python''" "[(''language'', JStr ''python''), (''code'', JStr '''')]"
      None]
  show ?thesis by simp
qed

text \<open>
  The claim as it was stated fails: the request with \<open>code = ""\<close> is answered with the
  validation error, not with a report.
\<close>

theorem empty_code_counterexample:
  "post_analyze None [(''code'', JStr ''''), (''language'', JStr ''javascript'')]
     = Inl (HttpError 400 missing_message)"
  by (simp add: post_analyze_def get_prop_def)

text \<open>
  Claim C3, as amended. For every request body whose \<open>code\<close> is absent, falsy or a
  string, either the handler rejects the request with the validation error before
  the analysis, or \<open>analyzeCode\<close> runs to completion and returns a report.
\<close>

theorem analysis_of_strings_returns:
  assumes "\<not> truthy (get_prop body ''code'') \<or> (\<exists>c. get_prop body ''code'' = JStr c)"
  shows "post_analyze ai body = Inl (HttpError 400 missing_message)
     \<or> (\<exists>c. get_prop body ''code'' = JStr c
          \<and> analyzeCode_call (get_prop body ''code'') (get_prop body ''language'')
              = Inr (analyzeCode c (get_prop body ''language'')))"
  using assms by (auto simp add: post_analyze_rejects)

theorem analysis_of_strings_returns_witness:
  "analyzeCode_call (get_prop [(''code'', JStr ''x == y''), (''language'', JNum 7)] ''code'')
       (get_prop [(''code'', JStr ''x == y''), (''language'', JNum 7)] ''language'')
     = Inr (analyzeCode ''x == y'' (JNum 7))
   \<and> post_analyze None [(''code'', JBool False), (''language'', JStr ''c'')]
     = Inl (HttpError 400 missing_message)"
proof -
  have a: "\<exists>c. get_prop [(''code'', JStr ''x == y''), (''language'', JNum 7)] ''code'' = JStr c"
    by (simp add: get_prop_def)
  have n: "post_analyze None [(''code'', JStr ''x == y''), (''language'', JNum 7)]
      \<noteq> Inl (HttpError 400 missing_message)"
    by (simp add: post_analyze_def get_prop_def generateAIFixedCode_def)
  have b: "\<not> truthy (get_prop [(''code'', JBool False), (''language'', JStr ''c'')] ''code'')"
    by (simp add: get_prop_def)
  have nb: "\<not> (\<exists>c. get_prop [(''code'', JBool False), (''language'', JStr ''c'')] ''code'' = JStr c)"
    by (simp add: get_prop_def)
  from analysis_of_strings_returns [of "[(''code'', JStr ''x == y''), (''language'', JNum 7)]" None] a n
    analysis_of_strings_returns [of "[(''code'', JBool False), (''language'', JStr ''c'')]" None] b nb
  show ?thesis by (auto simp add: get_prop_def)
qed

text \<open>
  The claim as it was stated fails: a \<open>code\<close> that is the number 123 is truthy, so the
  request passes the check of the handler, and \<open>analyzeCode\<close> throws a TypeError,
  which leaves the handler.
\<close>

theorem non_string_code_counterexample:
  "truthy (JNum 123) \<and> truthy (JStr ''javascript'')
   \<and> analyzeCode_call (JNum 123) (JStr ''javascript'')
       = Inl (TypeError ''code.split is not a function'')
   \<and> post_analyze None [(''code'', JNum 123), (''language'', JStr ''javascript'')]
       = Inl (TypeError ''code.split is not a function'')"
  by (simp add: post_analyze_def get_prop_def generateAIFixedCode_def)

text \<open>
  Claim C4. For every request in which \<open>code\<close> or \<open>language\<close> is missing, the handler
  answers with the status 400 and a message that names \<open>code\<close> and \<open>language\<close>; the
  answer is the error alone, with no report, with or without a client for the
  rewrite.
\<close>

theorem missing_field_rejected:
  assumes "map_of body ''code'' = None \<or> map_of body ''language'' = None"
  shows "post_analyze ai body = Inl (HttpError 400 missing_message)
     \<and> str_includes missing_message ''code'' \<and> str_includes missing_message ''language''"
proof -
  from assms have "\<not> truthy (get_prop body ''code'') \<or> \<not> truthy (get_prop body ''language'')"
    by (auto simp add: get_prop_def)
  then have "post_analyze ai body = Inl (HttpError 400 missing_message)"
    by (rule post_analyze_rejects)
  moreover have "str_includes missing_message ''code''" "str_includes missing_message ''language''"
    by (simp_all add: missing_message_def)
  ultimately show ?thesis by simp
qed

theorem missing_field_rejected_witness:
  "map_of [(''code'', JStr ''print(x)'')] ''language'' = None
   \<and> post_analyze None [(''code'', JStr ''print(x)'')] = Inl (HttpError 400 missing_message)
   \<and> map_of [(''language'', JStr ''python'')] ''code'' = None
   \<and> post_analyze None [(''language'', JStr ''python'')] = Inl (HttpError 400 missing_message)"
proof -
  have a: "map_of [(''code'', JStr ''print(x)'')] ''language'' = None"
    and b: "map_of [(''language'', JStr ''python'')] ''code'' = None"
    by simp_all
  from a b missing_field_rejected [of "[(''code'', JStr ''print(x)'')]" None]
    missing_field_rejected [of "[(''language'', JStr ''python'')]" None]
  show ?thesis by blast
qed




text \<open>
  Claim C6. The issues titled \<open>"Line too long"\<close> of a report are, line after line, one
  for each line whose untrimmed length exceeds 100, carrying the number of that line;
  each is a \<open>"suggestion"\<close>. A line of 100 characters gives none, a line of 101 gives
  one.
\<close>

theorem long_line_rule:
  "filter (\<lambda>x. title x = ''Line too long'') (issues (analyzeCode code language)) =
     concat (map (\<lambda>(line, index). if length line > 100 then [long_line_issue (index + 1)] else [])
       (zip (split_newline code) [0..<length (split_newline code)]))
   \<and> type (long_line_issue n) = ''suggestion''
   \<and> title (long_line_issue n) = ''Line too long''"
  by (simp add: analyzeCode_issues filter_numbered_issues long_line_filter issue_types
      issue_titles)

theorem long_line_rule_witness:
  "filter (\<lambda>x. title x = ''Line too long'')
     (issues (analyzeCode (replicate 101 CHR ''a'') (JStr ''python''))) = [long_line_issue 1]
   \<and> filter (\<lambda>x. title x = ''Line too long'')
     (issues (analyzeCode (replicate 100 CHR ''a'') (JStr ''python''))) = []
   \<and> type (long_line_issue 1) = ''suggestion''"
proof -
  have a: "concat (map (\<lambda>(line, index). if length line > 100 then [long_line_issue (index + 1)] else [])
       (zip (split_newline (replicate 101 CHR ''a''))
          [0..<length (split_newline (replicate 101 CHR ''a''))])) = [long_line_issue 1]"
    by code_simp
  have b: "concat (map (\<lambda>(line, index). if length line > 100 then [long_line_issue (index + 1)] else [])
       (zip (split_newline (replicate 100 CHR ''a''))
          [0..<length (split_newline (replicate 100 CHR ''a''))])) = []"
    by code_simp
  from long_line_rule [of "replicate 101 CHR ''a''" "JStr ''python''" 1]
    long_line_rule [of "replicate 100 CHR ''a''" "JStr ''python''" 1] a b
  show ?thesis by simp
qed

text \<open>
  Claim C7. The issues titled \<open>"Loose equality operator"\<close> of a report are, line after
  line, one for each line such that the language is \<open>"javascript"\<close> and the trimmed
  line contains \<open>==\<close> and does not contain \<open>===\<close>; each is a \<open>"warning"\<close>. With any
  other language there is none.
\<close>

theorem loose_equality_rule:
  "filter (\<lambda>x. title x = ''Loose equality operator'') (issues (analyzeCode code (JStr language))) =
     concat (map (\<lambda>(line, index).
         if language = ''javascript'' \<and> str_includes (trim line) ''==''
            \<and> \<not> str_includes (trim line) ''===''
         then [loose_equality_issue (index + 1)] else [])
       (zip (split_newline code) [0..<length (split_newline code)]))
   \<and> type (loose_equality_issue n) = ''warning''
   \<and> title (loose_equality_issue n) = ''Loose equality operator''"
  by (simp add: analyzeCode_issues filter_numbered_issues loose_equality_filter issue_types
      issue_titles)

theorem loose_equality_rule_witness:
  "filter (\<lambda>x. title x = ''Loose equality operator'')
     (issues (analyzeCode ''if (a == b)'' (JStr ''javascript''))) = [loose_equality_issue 1]
   \<and> filter (\<lambda>x. title x = ''Loose equality operator'')
     (issues (analyzeCode ''if (a === b)'' (JStr ''javascript''))) = []
   \<and> filter (\<lambda>x. title x = ''Loose equality operator'')
     (issues (analyzeCode ''if (a == b)'' (JStr ''python''))) = []"
proof -
  have a: "concat (map (\<lambda>(line, index).
         if ''javascript'' = ''javascript'' \<and> str_includes (trim line) ''==''
            \<and> \<not> str_includes (trim line) ''===''
         then [loose_equality_issue (index + 1)] else [])
       (zip (split_newline ''if (a == b)'') [0..<length (split_newline ''if (a == b)'')]))
     = [loose_equality_issue 1]"
    by code_simp
  have b: "concat (map (\<lambda>(line, index).
         if ''javascript'' = ''javascript'' \<and> str_includes (trim line) ''==''
            \<and> \<not> str_includes (trim line) ''===''
         then [loose_equality_issue (index + 1)] else [])
       (zip (split_newline ''if (a === b)'') [0..<length (split_newline ''if (a === b)'')]))
     = []"
    by code_simp
  have c: "concat (map (\<lambda>(line, index).
         if ''python'' = ''javascript'' \<and> str_includes (trim line) ''==''
            \<and> \<not> str_includes (trim line) ''===''
         then [loose_equality_issue (index + 1)] else [])
       (zip (split_newline ''if (a == b)'') [0..<length (split_newline ''if (a == b)'')]))
     = []"
    by code_simp
  from loose_equality_rule [of "''if (a == b)''" "''javascript''" 1]
    loose_equality_rule [of "''if (a === b)''" "''javascript''" 1]
    loose_equality_rule [of "''if (a == b)''" "''python''" 1] a b c
  show ?thesis by simp
qed

text \<open>
  Claim C8. The issues titled \<open>"Debug statement"\<close> of a report are, line after line,
  one for each line whose trimmed form starts with \<open>print(\<close> or contains
  \<open>console.log\<close> anywhere; each is a \<open>"suggestion"\<close>. So \<open>print(x)\<close> and
  \<open>  console.log(x)\<close> give one, and \<open>x = print(y)\<close> gives none.
\<close>

theorem debug_statement_rule:
  "filter (\<lambda>x. title x = ''Debug statement'') (issues (analyzeCode code language)) =
     concat (map (\<lambda>(line, index).
         if startsWith (trim line) ''print('' \<or> str_includes (trim line) ''console.log''
         then [debug_issue (index + 1)] else [])
       (zip (split_newline code) [0..<length (split_newline code)]))
   \<and> type (debug_issue n) = ''suggestion''
   \<and> title (debug_issue n) = ''Debug statement''"
  by (simp add: analyzeCode_issues filter_numbered_issues debug_filter issue_types issue_titles)

theorem debug_statement_rule_witness:
  "filter (\<lambda>x. title x = ''Debug statement'')
     (issues (analyzeCode ''print(x)'' (JStr ''python''))) = [debug_issue 1]
   \<and> filter (\<lambda>x. title x = ''Debug statement'')
     (issues (analyzeCode ''  console.log(x)'' (JStr ''javascript''))) = [debug_issue 1]
   \<and> filter (\<lambda>x. title x = ''Debug statement'')
     (issues (analyzeCode ''x = print(y)'' (JStr ''python''))) = []"
proof -
  have a: "concat (map (\<lambda>(line, index).
         if startsWith (trim line) ''print('' \<or> str_includes (trim line) ''console.log''
         then [debug_issue (index + 1)] else [])
       (zip (split_newline ''print(x)'') [0..<length (split_newline ''print(x)'')]))
     = [debug_issue 1]"
    by code_simp
  have b: "concat (map (\<lambda>(line, index).
         if startsWith (trim line) ''print('' \<or> str_includes (trim line) ''console.log''
         then [debug_issue (index + 1)] else [])
       (zip (split_newline ''  console.log(x)'') [0..<length (split_newline ''  console.log(x)'')]))
     = [debug_issue 1]"
    by code_simp
  have c: "concat (map (\<lambda>(line, index).
         if startsWith (trim line) ''print('' \<or> str_includes (trim line) ''console.log''
         then [debug_issue (index + 1)] else [])
       (zip (split_newline ''x = print(y)'') [0..<length (split_newline ''x = print(y)'')]))
     = []"
    by code_simp
  from debug_statement_rule [of "''print(x)''" "JStr ''python''" 1]
    debug_statement_rule [of "''  console.log(x)''" "JStr ''javascript''" 1]
    debug_statement_rule [of "''x = print(y)''" "JStr ''python''" 1] a b c
  show ?thesis by simp
qed

text \<open>
  Claim C9. The issues of a report are those of its lines, line after line, the lines
  being the pieces of \<open>code\<close> between newline characters; every issue of the line
  with the 1-based number \<open>N\<close> has a message that contains \<open>Line N:\<close>; and
  \<open>getErroredLineNumbers\<close> on the issues of the report gives exactly the numbers of
  the lines that have at least one issue.
\<close>

theorem line_number_round_trip:
  "(\<forall>index < length (split_newline code).
      \<forall>x \<in> set (line_issues language (split_newline code ! index) index).
        str_includes (message x) (''Line '' @ show_nat (index + 1) @ '':''))
   \<and> issues (analyzeCode code language) =
       concat (map (\<lambda>(line, index). line_issues language line index)
         (zip (split_newline code) [0..<length (split_newline code)]))
   \<and> set (getErroredLineNumbers (issues (analyzeCode code language))) =
       {n. 1 \<le> n \<and> n \<le> length (split_newline code)
           \<and> line_issues language (split_newline code ! (n - 1)) (n - 1) \<noteq> []}"
proof -
  let ?lines = "split_newline code"
  have a: "\<forall>index < length ?lines. \<forall>x \<in> set (line_issues language (?lines ! index) index).
      str_includes (message x) (''Line '' @ show_nat (index + 1) @ '':'')"
    using line_issues_message by blast
  have b: "issues (analyzeCode code language) =
       concat (map (\<lambda>(line, index). line_issues language line index)
         (zip ?lines [0..<length ?lines]))"
    by (simp add: analyzeCode_issues numbered_issues_def)
  have c: "set (getErroredLineNumbers (issues (analyzeCode code language))) =
       {n. 1 \<le> n \<and> n \<le> length ?lines \<and> line_issues language (?lines ! (n - 1)) (n - 1) \<noteq> []}"
    (is "?L = ?R")
  proof (rule set_eqI)
    fix n
    show "n \<in> ?L \<longleftrightarrow> n \<in> ?R"
    proof
      assume "n \<in> ?L"
      then obtain d x where n: "n = parseInt d"
        and x: "x \<in> set (numbered_issues language ?lines 0)"
        and m: "regex_match (message x) = Some d"
        by (auto simp add: set_getErroredLineNumbers analyzeCode_issues)
      from x obtain index where i: "index < length ?lines"
        and xi: "x \<in> set (line_issues language (?lines ! index) index)"
        by (auto simp add: in_numbered_issues)
      from xi m have "d = show_nat (index + 1)"
        by (simp add: line_issues_regex)
      with n have "n = index + 1"
        by (simp add: parseInt_show_nat)
      with i xi show "n \<in> ?R"
        by auto
    next
      assume "n \<in> ?R"
      then have n: "1 \<le> n" "n \<le> length ?lines"
        and ne: "line_issues language (?lines ! (n - 1)) (n - 1) \<noteq> []"
        by simp_all
      from ne obtain x where xi: "x \<in> set (line_issues language (?lines ! (n - 1)) (n - 1))"
        by (cases "line_issues language (?lines ! (n - 1)) (n - 1)") auto
      with n have x: "x \<in> set (numbered_issues language ?lines 0)"
        by (auto simp add: in_numbered_issues intro!: exI [of _ "n - 1"])
      from xi n have "regex_match (message x) = Some (show_nat n)"
        by (simp add: line_issues_regex)
      with x have "parseInt (show_nat n) \<in> ?L"
        unfolding set_getErroredLineNumbers analyzeCode_issues by blast
      then show "n \<in> ?L"
        by (simp add: parseInt_show_nat)
    qed
  qed
  from a b c show ?thesis by blast
qed

theorem line_number_round_trip_witness:
  "str_includes (message (todo_issue 1)) ''Line 1:''
   \<and> 1 \<in> set (getErroredLineNumbers (issues (analyzeCode
        ''a == b // TODO\<newline>x = print(y)\<newline>  console.log(x)'' (JStr ''javascript''))))
   \<and> 2 \<notin> set (getErroredLineNumbers (issues (analyzeCode
        ''a == b // TODO\<newline>x = print(y)\<newline>  console.log(x)'' (JStr ''javascript''))))
   \<and> 3 \<in> set (getErroredLineNumbers (issues (analyzeCode
        ''a == b // TODO\<newline>x = print(y)\<newline>  console.log(x)'' (JStr ''javascript''))))"
proof -
  let ?code = "''a == b // TODO\<newline>x = print(y)\<newline>  console.log(x)''"
  let ?lines = "split_newline ?code"
  have len: "length ?lines = 3"
    by code_simp
  have l1: "line_issues (JStr ''javascript'') (?lines ! 0) 0 = [todo_issue 1, loose_equality_issue 1]"
    by code_simp
  have l2: "line_issues (JStr ''javascript'') (?lines ! 1) 1 = []"
    by code_simp
  have l3: "line_issues (JStr ''javascript'') (?lines ! 2) 2 = [debug_issue 3]"
    by code_simp
  have s: "show_nat (Suc 0) = ''1''"
    by code_simp
  note t = line_number_round_trip [of ?code "JStr ''javascript''"]
  note t1 = t [THEN conjunct1, rule_format, of 0 "todo_issue 1"]
  note e = t [THEN conjunct2, THEN conjunct2]
  have "str_includes (message (todo_issue 1)) (''Line '' @ show_nat (0 + 1) @ '':'')"
    by (rule t1) (simp_all add: len l1)
  then have a: "str_includes (message (todo_issue 1)) ''Line 1:''"
    by (simp add: s)
  have b: "1 \<in> set (getErroredLineNumbers (issues (analyzeCode ?code (JStr ''javascript''))))"
    unfolding e using l1 len by simp
  have c: "2 \<notin> set (getErroredLineNumbers (issues (analyzeCode ?code (JStr ''javascript''))))"
    unfolding e using l2 len by simp
  have d: "3 \<in> set (getErroredLineNumbers (issues (analyzeCode ?code (JStr ''javascript''))))"
    unfolding e using l3 len by simp
  from a b c d show ?thesis by (intro conjI)
qed

text \<open>
  Claim C10. \<open>addReport\<close> puts the new record in front of the list; so after a run of
  successful analyses, starting from the empty list, the list has one record for
  each analysis, the most recent first, each with the language of its analysis and
  the \<open>total\<close>, \<open>warnings\<close> and \<open>suggestions\<close> of its report.
\<close>

theorem session_log_order:
  "addReport timestamp language (result_of r) reports =
     \<lparr>rec_timestamp = timestamp, rec_language = language, rec_total = total r,
      rec_warnings = warnings r, rec_suggestions = suggestions r\<rparr> # reports
   \<and> record_all analyses reports_initial =
       rev (map (\<lambda>(timestamp, language, r).
            \<lparr>rec_timestamp = timestamp, rec_language = language, rec_total = total r,
             rec_warnings = warnings r, rec_suggestions = suggestions r\<rparr>) analyses)
   \<and> length (record_all analyses reports_initial) = length analyses"
  by (simp add: record_all_append reports_initial_def addReport_def result_of_def nullish_def)

theorem session_log_order_witness:
  "record_all
     [(''10:00'', ''python'',
         report.extend (analyzeCode ''print(x)'' (JStr ''python'')) (final_response.fields None)),
      (''10:05'', ''javascript'',
         report.extend (analyzeCode ''a == b // TODO'' (JStr ''javascript''))
           (final_response.fields None))]
     reports_initial =
   [\<lparr>rec_timestamp = ''10:05'', rec_language = ''javascript'', rec_total = 2,
      rec_warnings = 2, rec_suggestions = 0\<rparr>,
    \<lparr>rec_timestamp = ''10:00'', rec_language = ''python'', rec_total = 1,
      rec_warnings = 0, rec_suggestions = 1\<rparr>]"
proof -
  have a: "analyzeCode ''print(x)'' (JStr ''python'') =
      \<lparr>warnings = 0, suggestions = 1, total = 1, issues = [debug_issue 1]\<rparr>"
    by code_simp
  have b: "analyzeCode ''a == b // TODO'' (JStr ''javascript'') =
      \<lparr>warnings = 2, suggestions = 0, total = 2,
       issues = [todo_issue 1, loose_equality_issue 1]\<rparr>"
    by code_simp
  from session_log_order [of "''10:00''" "''python''"
      "report.extend (analyzeCode ''print(x)'' (JStr ''python'')) (final_response.fields None)" "[]"
      "[(''10:00'', ''python'',
         report.extend (analyzeCode ''print(x)'' (JStr ''python'')) (final_response.fields None)),
        (''10:05'', ''javascript'',
         report.extend (analyzeCode ''a == b // TODO'' (JStr ''javascript''))
           (final_response.fields None))]"]
  show ?thesis
    by (simp add: a b report.extend_def final_response.fields_def)
qed

end
